theory Spec2Isabelle
  imports Complex_Main "HOL-Library.Sublist"
begin

section \<open>Python values\<close>

text \<open>
  The program is one function, \<^verbatim>\<open>fetch_data(query, sort_code)\<close> of \<^verbatim>\<open>app.py\<close>: it reads an
  API key from the environment, issues one HTTP GET, decodes the JSON body and turns the
  product array found in it into a list of dictionaries, one per product. The values it
  handles are decoded JSON values, so the model starts with those.

  A Python \<^verbatim>\<open>float\<close> is a binary64 number. \<open>Finite q\<close> is the float whose exact value is the
  rational \<open>q\<close>; \<open>0.0\<close> and \<open>-0.0\<close> are both \<open>Finite 0\<close> (they are equal and both falsy in
  Python). A \<^verbatim>\<open>dict\<close> is the list of its items in insertion order; a key is looked up with
  \<open>map_of\<close>. Strings are ASCII text.
\<close>

datatype pyfloat = Finite rat | PosInf | NegInf | NaN

datatype json =
    JNull
  | JBool bool
  | JInt int
  | JFloat pyfloat
  | JStr string
  | JList "json list"
  | JObj "(string \<times> json) list"

text \<open>
  An exception carries the object it complains about. The text \<^verbatim>\<open>str(e)\<close> that the
  interpreter makes of it is not part of this repository and is a parameter of the model
  (\<open>exc_str\<close> below).
\<close>

datatype exn =
    AttributeError json
  | TypeError json
  | ValueError json
  | OverflowError json
  | IndexError
  | RequestException string
  | JSONDecodeError string

text \<open>Truthiness, as \<^verbatim>\<open>if v:\<close> and \<^verbatim>\<open>not v\<close> test it.\<close>

fun py_bool :: "json \<Rightarrow> bool" where
  "py_bool JNull = False"
| "py_bool (JBool b) = b"
| "py_bool (JInt n) = (n \<noteq> 0)"
| "py_bool (JFloat f) = (f \<noteq> Finite 0)"
| "py_bool (JStr s) = (s \<noteq> [])"
| "py_bool (JList vs) = (vs \<noteq> [])"
| "py_bool (JObj kvs) = (kvs \<noteq> [])"

text \<open>
  \<^verbatim>\<open>d.get(key, default)\<close>: only a dict has the method; on anything else the attribute
  lookup raises.
\<close>

fun dict_get :: "json \<Rightarrow> string \<Rightarrow> json \<Rightarrow> exn + json" where
  "dict_get (JObj kvs) k d = Inr (case map_of kvs k of None \<Rightarrow> d | Some v \<Rightarrow> v)"
| "dict_get v k d = Inl (AttributeError v)"

section \<open>Rounding to binary64\<close>

text \<open>
  \<open>binary64 q\<close> is the float nearest to the rational \<open>q\<close> (ties to the even significand,
  53 bits, exponents from \<open>-1022\<close> with gradual underflow, overflow to infinity). It is what
  \<^verbatim>\<open>float("29.99")\<close> and the literal \<^verbatim>\<open>29.99\<close> both denote.
\<close>

fun bitlen :: "nat \<Rightarrow> nat" where
  "bitlen n = (if n = 0 then 0 else Suc (bitlen (n div 2)))"

declare bitlen.simps [simp del]

definition pow2 :: "int \<Rightarrow> rat" where
  "pow2 k = (if 0 \<le> k then 2 ^ nat k else 1 / 2 ^ nat (- k))"

definition binade :: "rat \<Rightarrow> int" where
  \<comment> \<open>for \<open>0 < a\<close>, the exponent \<open>e\<close> with \<open>2 ^ e \<le> a < 2 ^ (e + 1)\<close>\<close>
  "binade a =
     (if 1 \<le> a then int (bitlen (nat \<lfloor>a\<rfloor>)) - 1
      else - int (bitlen (nat (\<lceil>1 / a\<rceil> - 1))))"

definition round_half_even :: "rat \<Rightarrow> int" where
  "round_half_even x =
     (let m = \<lfloor>x\<rfloor>; r = x - of_int m
      in if r < 1 / 2 then m
         else if 1 / 2 < r then m + 1
         else if even m then m else m + 1)"

definition binary64 :: "rat \<Rightarrow> pyfloat" where
  "binary64 q =
     (if q = 0 then Finite 0
      else
        let a = \<bar>q\<bar>;
            e = max (binade a) (- 1022);
            u = pow2 (e - 52);
            r = of_int (round_half_even (a / u)) * u
        in if pow2 1024 \<le> r then (if 0 < q then PosInf else NegInf)
           else Finite (if 0 < q then r else - r))"

section \<open>The built-ins the function calls\<close>

subsection \<open>\<^verbatim>\<open>str.replace\<close> and \<^verbatim>\<open>str.split\<close>\<close>

text \<open>
  \<^verbatim>\<open>s.replace(old, new)\<close> replaces the occurrences of \<open>old\<close> from left to right, without
  overlap. With an empty \<open>old\<close> Python puts \<open>new\<close> before every character and at the end.
\<close>

fun py_replace :: "string \<Rightarrow> string \<Rightarrow> string \<Rightarrow> string" where
  "py_replace old new [] = (if old = [] then new else [])"
| "py_replace old new (c # cs) =
     (if old = [] then new @ c # py_replace old new cs
      else if prefix old (c # cs) then new @ py_replace old new (drop (length old) (c # cs))
      else c # py_replace old new cs)"

text \<open>
  \<^verbatim>\<open>s.split(sep)\<close> cuts at the occurrences of \<open>sep\<close>, again from left to right without
  overlap; \<open>cur\<close> is the piece being read. An empty separator is a \<^verbatim>\<open>ValueError\<close>.
\<close>

fun split_from :: "string \<Rightarrow> string \<Rightarrow> string \<Rightarrow> string list" where
  "split_from sep cur [] = [cur]"
| "split_from sep cur (c # cs) =
     (if sep \<noteq> [] \<and> prefix sep (c # cs) then cur # split_from sep [] (drop (length sep) (c # cs))
      else split_from sep (cur @ [c]) cs)"

definition py_split :: "string \<Rightarrow> string \<Rightarrow> exn + string list" where
  "py_split sep s = (if sep = [] then Inl (ValueError (JStr sep)) else Inr (split_from sep [] s))"

text \<open>\<^verbatim>\<open>xs[0]\<close>\<close>

definition item0 :: "'a list \<Rightarrow> exn + 'a" where
  "item0 xs = (case xs of [] \<Rightarrow> Inl IndexError | x # _ \<Rightarrow> Inr x)"

subsection \<open>\<^verbatim>\<open>float(s)\<close> and \<^verbatim>\<open>int(s)\<close> on strings\<close>

definition is_space :: "char \<Rightarrow> bool" where
  "is_space c = (c \<in> set [CHR '' '', CHR 0x09, CHR 0x0A, CHR 0x0B, CHR 0x0C, CHR 0x0D])"

definition is_digit :: "char \<Rightarrow> bool" where
  "is_digit c = (c \<in> set ''0123456789'')"

definition digit_val :: "char \<Rightarrow> nat" where
  \<comment> \<open>the position of the digit in \<open>0123456789\<close>\<close>
  "digit_val c = length (takeWhile (\<lambda>d. d \<noteq> c) ''0123456789'')"

definition nat_of_digits :: "string \<Rightarrow> nat" where
  "nat_of_digits ds = foldl (\<lambda>n c. 10 * n + digit_val c) 0 ds"

definition strip_ws :: "string \<Rightarrow> string" where
  "strip_ws s = rev (dropWhile is_space (rev (dropWhile is_space s)))"

definition split_sign :: "string \<Rightarrow> bool \<times> string" where
  \<comment> \<open>an optional \<open>+\<close> or \<open>-\<close>; the flag says \<open>-\<close>\<close>
  "split_sign s =
     (case s of
        [] \<Rightarrow> (False, [])
      | c # cs \<Rightarrow>
          if c = CHR ''-'' then (True, cs) else if c = CHR ''+'' then (False, cs) else (False, s))"

text \<open>
  \<open>digitpart\<close>: digits, with single underscores allowed between two digits; the result is
  the digits alone.
\<close>

fun digitpart :: "string \<Rightarrow> string option" where
  "digitpart [] = None"
| "digitpart (c # cs) =
     (if is_digit c then
        (case cs of
           [] \<Rightarrow> Some [c]
         | d # ds \<Rightarrow>
             if d = CHR ''_'' then map_option (Cons c) (digitpart ds)
             else map_option (Cons c) (digitpart (d # ds)))
      else None)"

definition frac_of_digits :: "string \<Rightarrow> rat" where
  "frac_of_digits ds = of_nat (nat_of_digits ds) / 10 ^ length ds"

definition pow10 :: "int \<Rightarrow> rat" where
  "pow10 k = (if 0 \<le> k then 10 ^ nat k else 1 / 10 ^ nat (- k))"

definition parse_mantissa :: "string \<Rightarrow> rat option" where
  \<comment> \<open>\<open>digitpart\<close>, \<open>digitpart . [digitpart]\<close> or \<open>. digitpart\<close>\<close>
  "parse_mantissa m =
     (let ip = takeWhile (\<lambda>c. c \<noteq> CHR ''.'') m;
          r = dropWhile (\<lambda>c. c \<noteq> CHR ''.'') m
      in if r = [] then map_option (\<lambda>i. of_nat (nat_of_digits i)) (digitpart ip)
         else
           let fp = tl r
           in if ip = [] then map_option frac_of_digits (digitpart fp)
              else
                (case digitpart ip of
                   None \<Rightarrow> None
                 | Some i \<Rightarrow>
                     if fp = [] then Some (of_nat (nat_of_digits i))
                     else
                       (case digitpart fp of
                          None \<Rightarrow> None
                        | Some f \<Rightarrow> Some (of_nat (nat_of_digits i) + frac_of_digits f))))"

definition parse_exponent :: "string \<Rightarrow> int option" where
  "parse_exponent x =
     (case digitpart (snd (split_sign x)) of
        None \<Rightarrow> None
      | Some d \<Rightarrow>
          Some (if fst (split_sign x) then - int (nat_of_digits d) else int (nat_of_digits d)))"

definition parse_number :: "string \<Rightarrow> rat option" where
  \<comment> \<open>a mantissa, then an optional \<open>e\<close> or \<open>E\<close> with an exponent\<close>
  "parse_number s =
     (let m = takeWhile (\<lambda>c. c \<noteq> CHR ''e'' \<and> c \<noteq> CHR ''E'') s;
          ex = dropWhile (\<lambda>c. c \<noteq> CHR ''e'' \<and> c \<noteq> CHR ''E'') s
      in case parse_mantissa m of
           None \<Rightarrow> None
         | Some q \<Rightarrow>
             if ex = [] then Some q
             else
               (case parse_exponent (tl ex) of
                  None \<Rightarrow> None
                | Some k \<Rightarrow> Some (q * pow10 k)))"

definition ascii_lower :: "char \<Rightarrow> char" where
  "ascii_lower c =
     (let n = (of_char c :: nat) in if 65 \<le> n \<and> n \<le> 90 then char_of (n + 32) else c)"

definition py_float_of_str :: "string \<Rightarrow> exn + pyfloat" where
  "py_float_of_str s =
     (let neg = fst (split_sign (strip_ws s));
          body = snd (split_sign (strip_ws s));
          low = map ascii_lower body
      in if low = ''inf'' \<or> low = ''infinity'' then Inr (if neg then NegInf else PosInf)
         else if low = ''nan'' then Inr NaN
         else
           (case parse_number body of
              None \<Rightarrow> Inl (ValueError (JStr s))
            | Some q \<Rightarrow> Inr (binary64 (if neg then - q else q))))"

text \<open>
  \<^verbatim>\<open>int(s)\<close> takes an optional sign and a \<open>digitpart\<close>. CPython refuses a literal of more
  than 4300 digits (the default of \<^verbatim>\<open>sys.int_max_str_digits\<close>) with a \<^verbatim>\<open>ValueError\<close>.
\<close>

definition py_int_of_str :: "string \<Rightarrow> exn + int" where
  "py_int_of_str s =
     (case digitpart (snd (split_sign (strip_ws s))) of
        None \<Rightarrow> Inl (ValueError (JStr s))
      | Some d \<Rightarrow>
          if 4300 < length d then Inl (ValueError (JStr s))
          else Inr (if fst (split_sign (strip_ws s)) then - int (nat_of_digits d)
                    else int (nat_of_digits d)))"

subsection \<open>\<^verbatim>\<open>float(v)\<close>, \<^verbatim>\<open>int(v)\<close>, \<^verbatim>\<open>x in v\<close>, iteration\<close>

fun py_float :: "json \<Rightarrow> exn + pyfloat" where
  "py_float (JStr s) = py_float_of_str s"
| "py_float (JFloat f) = Inr f"
| "py_float (JInt n) =
     (case binary64 (of_int n) of
        Finite q \<Rightarrow> Inr (Finite q)
      | _ \<Rightarrow> Inl (OverflowError (JInt n)))"
| "py_float (JBool b) = Inr (Finite (if b then 1 else 0))"
| "py_float v = Inl (TypeError v)"

fun py_int :: "json \<Rightarrow> exn + int" where
  "py_int (JStr s) = py_int_of_str s"
| "py_int (JInt n) = Inr n"
| "py_int (JBool b) = Inr (if b then 1 else 0)"
| "py_int (JFloat (Finite q)) = Inr (if 0 \<le> q then \<lfloor>q\<rfloor> else \<lceil>q\<rceil>)"
| "py_int (JFloat NaN) = Inl (ValueError (JFloat NaN))"
| "py_int (JFloat f) = Inl (OverflowError (JFloat f))"
| "py_int v = Inl (TypeError v)"

text \<open>
  \<^verbatim>\<open>x in s\<close> for a string \<open>s\<close> is the substring test: \<open>x\<close> starts at some position of \<open>s\<close>.
\<close>

fun substring :: "string \<Rightarrow> string \<Rightarrow> bool" where
  "substring x [] = (x = [])"
| "substring x (c # cs) = (prefix x (c # cs) \<or> substring x cs)"

text \<open>
  \<^verbatim>\<open>x in v\<close> for a string \<open>x\<close>: substring of a string, element of a list, key of a dict;
  the other values are not containers.
\<close>

fun py_in :: "string \<Rightarrow> json \<Rightarrow> exn + bool" where
  "py_in x (JStr s) = Inr (substring x s)"
| "py_in x (JList vs) = Inr (JStr x \<in> set vs)"
| "py_in x (JObj kvs) = Inr (x \<in> set (map fst kvs))"
| "py_in x v = Inl (TypeError v)"

text \<open>
  \<^verbatim>\<open>for item in v\<close>: the elements of a list, the keys of a dict, the characters of a string.
\<close>

fun py_iter :: "json \<Rightarrow> exn + json list" where
  "py_iter (JList vs) = Inr vs"
| "py_iter (JObj kvs) = Inr (map (\<lambda>kv. JStr (fst kv)) kvs)"
| "py_iter (JStr s) = Inr (map (\<lambda>c. JStr [c]) s)"
| "py_iter v = Inl (TypeError v)"

section \<open>The function \<^verbatim>\<open>fetch_data\<close>\<close>

text \<open>
  What the function reads from outside: the environment variable, the HTTP endpoint
  (\<^verbatim>\<open>requests.get(...)\<close> followed by \<^verbatim>\<open>response.json()\<close>, which gives the decoded body or
  raises), and two services of the interpreter, \<^verbatim>\<open>str(v)\<close> of a value that is not a string
  and \<^verbatim>\<open>str(e)\<close> of an exception.
\<close>

record request =
  url :: string
  headers :: "(string \<times> string) list"
  params :: "(string \<times> string) list"

record world =
  RAPIDAPI_KEY :: "string option"
  http_json :: "request \<Rightarrow> exn + json"
  py_repr :: "json \<Rightarrow> string"
  exc_str :: "exn \<Rightarrow> string"

text \<open>The dictionary appended to \<^verbatim>\<open>clean_data\<close> for one product, with its eight keys.\<close>

record book =
  Title :: json
  Rating :: json
  Reviews :: json
  Price :: json
  Format :: json
  Best_Seller :: json
  Image :: json
  Link :: json

text \<open>Sequencing: an exception ends the computation.\<close>

definition then_do :: "exn + 'a \<Rightarrow> ('a \<Rightarrow> exn + 'b) \<Rightarrow> exn + 'b" where
  "then_do m f = (case m of Inl e \<Rightarrow> Inl e | Inr x \<Rightarrow> f x)"

definition py_str :: "world \<Rightarrow> json \<Rightarrow> string" where
  "py_str w v = (case v of JStr s \<Rightarrow> s | _ \<Rightarrow> py_repr w v)"

text \<open>
  Line 74:
  \<^verbatim>\<open>clean_str = str(raw_price).replace("$", "").replace(",", "").replace("from ", "").split(" - ")[0]\<close>
\<close>

definition clean_str :: "world \<Rightarrow> json \<Rightarrow> exn + string" where
  "clean_str w raw_price =
     then_do
       (py_split '' - ''
          (py_replace ''from '' []
             (py_replace '','' [] (py_replace ''$'' [] (py_str w raw_price)))))
       item0"

text \<open>
  Lines 71 to 77: the price starts at \<open>0.0\<close>; a truthy raw price is cleaned and parsed
  inside \<^verbatim>\<open>try\<close>, and the bare \<^verbatim>\<open>except\<close> puts \<open>0.0\<close> back whatever was raised.
\<close>

definition price :: "world \<Rightarrow> json \<Rightarrow> pyfloat" where
  "price w raw_price =
     (if py_bool raw_price then
        (case then_do (clean_str w raw_price) py_float_of_str of
           Inl e \<Rightarrow> Finite 0
         | Inr f \<Rightarrow> f)
      else Finite 0)"

text \<open>Line 80: \<^verbatim>\<open>rating = float(raw_rating) if raw_rating else 0.0\<close>\<close>

definition rating :: "json \<Rightarrow> exn + pyfloat" where
  "rating raw_rating = (if py_bool raw_rating then py_float raw_rating else Inr (Finite 0))"

text \<open>Line 83: \<^verbatim>\<open>reviews = int(raw_reviews) if raw_reviews else 0\<close>\<close>

definition reviews :: "json \<Rightarrow> exn + int" where
  "reviews raw_reviews = (if py_bool raw_reviews then py_int raw_reviews else Inr 0)"

text \<open>Lines 86 to 92: the format, from the title.\<close>

definition fmt :: "json \<Rightarrow> exn + string" where
  "fmt title =
     then_do (py_in ''Paperback'' title) (\<lambda>p.
       if p then Inr ''Paperback''
       else then_do (py_in ''Hardcover'' title) (\<lambda>h.
         if h then Inr ''Hardcover''
         else then_do (py_in ''Audiobook'' title) (\<lambda>a.
           if a then Inr ''Audiobook'' else Inr ''Standard'')))"

text \<open>Lines 70 to 103: the body of the loop, for one \<open>item\<close>.\<close>

definition clean_item :: "world \<Rightarrow> json \<Rightarrow> exn + book" where
  "clean_item w item =
     then_do (dict_get item ''product_price'' JNull) (\<lambda>raw_price.
     then_do (dict_get item ''product_star_rating'' JNull) (\<lambda>raw_rating.
     then_do (rating raw_rating) (\<lambda>r.
     then_do (dict_get item ''product_num_ratings'' JNull) (\<lambda>raw_reviews.
     then_do (reviews raw_reviews) (\<lambda>n.
     then_do (dict_get item ''product_title'' (JStr ''Unknown'')) (\<lambda>title.
     then_do (fmt title) (\<lambda>f.
     then_do (dict_get item ''is_best_seller'' JNull) (\<lambda>best.
     then_do (dict_get item ''product_photo'' (JStr [])) (\<lambda>photo.
     then_do (dict_get item ''product_url'' (JStr ''#'')) (\<lambda>link.
       Inr \<lparr> Title = title,
             Rating = JFloat r,
             Reviews = JInt n,
             Price = JFloat (price w raw_price),
             Format = JStr f,
             Best_Seller = JStr (if py_bool best then ''Yes'' else ''No''),
             Image = photo,
             Link = link \<rparr>))))))))))"

text \<open>Lines 68 to 103: the loop; \<open>clean_data\<close> is the list built so far.\<close>

fun clean_loop :: "world \<Rightarrow> json list \<Rightarrow> book list \<Rightarrow> exn + book list" where
  "clean_loop w [] clean_data = Inr clean_data"
| "clean_loop w (item # items) clean_data =
     then_do (clean_item w item) (\<lambda>row. clean_loop w items (clean_data @ [row]))"

text \<open>Line 63: \<^verbatim>\<open>products = data.get("data", {}).get("products", [])\<close>\<close>

definition products :: "json \<Rightarrow> exn + json" where
  "products data =
     then_do (dict_get data ''data'' (JObj [])) (\<lambda>d. dict_get d ''products'' (JList []))"

text \<open>Lines 45 to 61: the request.\<close>

definition get_request :: "string \<Rightarrow> string \<Rightarrow> string \<Rightarrow> request" where
  "get_request api_key query sort_code =
     \<lparr> url = ''https://real-time-amazon-data.p.rapidapi.com/search'',
       headers = [(''x-rapidapi-key'', api_key),
                  (''x-rapidapi-host'', ''real-time-amazon-data.p.rapidapi.com'')],
       params = [(''query'', query), (''page'', ''1''), (''country'', ''US''),
                 (''sort_by'', sort_code), (''category_id'', ''books'')] \<rparr>"

text \<open>
  Lines 60 to 108, the \<^verbatim>\<open>try\<close> block. The first component is the list that the function
  hands to \<^verbatim>\<open>pd.DataFrame\<close> (\<open>clean_data\<close> at line 105, no rows for the empty frame): one
  dictionary for each row of the frame, in order. The cell types that pandas derives for a
  column from these dictionaries are outside the model. The second component is the error
  (\<^verbatim>\<open>None\<close> on success).
\<close>

definition try_block :: "world \<Rightarrow> request \<Rightarrow> exn + book list \<times> string option" where
  "try_block w req =
     then_do (http_json w req) (\<lambda>data.
     then_do (products data) (\<lambda>ps.
       if \<not> py_bool ps then Inr ([], Some ''No products found.'')
       else
         then_do (py_iter ps) (\<lambda>items.
         then_do (clean_loop w items []) (\<lambda>rows. Inr (rows, None)))))"

text \<open>
  The whole function. The result is the pair the function returns, together with the list
  of the HTTP requests it has issued. (The decorator \<^verbatim>\<open>st.cache_data\<close> is outside the model:
  this is the body that runs on a cache miss.)
\<close>

definition fetch_data ::
  "world \<Rightarrow> string \<Rightarrow> string \<Rightarrow> (book list \<times> string option) \<times> request list" where
  "fetch_data w query sort_code =
     (case RAPIDAPI_KEY w of
        None \<Rightarrow> (([], Some ''Missing API key in environment variables.''), [])
      | Some api_key \<Rightarrow>
          if api_key = [] then (([], Some ''Missing API key in environment variables.''), [])
          else
            (case try_block w (get_request api_key query sort_code) of
               Inl e \<Rightarrow> ([], Some (''Server Error: '' @ exc_str w e))
             | Inr res \<Rightarrow> res,
             [get_request api_key query sort_code]))"

section \<open>Sample inputs\<close>

text \<open>
  A world with a given key whose endpoint answers every request with the same body, and
  the body that holds a given product array at \<open>data.products\<close>.
\<close>

definition sample_world :: "string option \<Rightarrow> json \<Rightarrow> world" where
  "sample_world key body =
     \<lparr> RAPIDAPI_KEY = key, http_json = (\<lambda>req. Inr body),
       py_repr = (\<lambda>v. ''<repr>''), exc_str = (\<lambda>e. ''<cause>'') \<rparr>"

definition response_with :: "json list \<Rightarrow> json" where
  "response_with items = JObj [(''data'', JObj [(''products'', JList items)])]"

text \<open>The item of the end-to-end example of the specification.\<close>

definition clean_code_item :: json where
  "clean_code_item =
     JObj [(''product_title'', JStr ''Clean Code Paperback Edition''),
           (''product_price'', JStr ''from $29.99 - $45.00''),
           (''product_star_rating'', JStr ''4.7''),
           (''product_num_ratings'', JStr ''1500''),
           (''is_best_seller'', JBool True)]"

text \<open>The record the code builds for it.\<close>

definition clean_code_row :: book where
  "clean_code_row =
     \<lparr> Title = JStr ''Clean Code Paperback Edition'',
       Rating = JFloat (binary64 (47 / 10)),
       Reviews = JInt 1500,
       Price = JFloat (binary64 (2999 / 100)),
       Format = JStr ''Paperback'',
       Best_Seller = JStr ''Yes'',
       Image = JStr [],
       Link = JStr ''#'' \<rparr>"

text \<open>Two items with a field that is present and does not parse.\<close>

definition bad_rating_item :: json where
  "bad_rating_item =
     JObj [(''product_title'', JStr ''Dune''),
           (''product_price'', JStr ''$9.99''),
           (''product_star_rating'', JStr ''N/A'')]"

definition bad_reviews_item :: json where
  "bad_reviews_item =
     JObj [(''product_title'', JStr ''Dune''),
           (''product_num_ratings'', JStr ''1,234'')]"

text \<open>Items with absent, falsy and null fields, and a title that names two formats.\<close>

definition title_only_item :: json where
  "title_only_item = JObj [(''product_title'', JStr ''Dune'')]"

definition falsy_fields_item :: json where
  "falsy_fields_item =
     JObj [(''product_title'', JStr ''Dune''),
           (''product_price'', JStr []),
           (''product_star_rating'', JInt 0),
           (''product_num_ratings'', JBool False)]"

definition null_title_item :: json where
  "null_title_item = JObj [(''product_title'', JNull), (''product_price'', JStr ''$5'')]"

definition both_formats_item :: json where
  "both_formats_item = JObj [(''product_title'', JStr ''Dune: Hardcover and Paperback Box'')]"

text \<open>
  An item without a price and without a review count whose rating does not parse, and the
  fields of an item whose price does not parse.
\<close>

definition no_price_fields :: "(string \<times> json) list" where
  "no_price_fields = [(''product_title'', JStr ''Dune''), (''product_star_rating'', JStr ''N/A'')]"

definition no_price_item :: json where
  "no_price_item = JObj no_price_fields"


section \<open>The format, in the words of the specification\<close>

text \<open>
  The candidates are searched in the fixed order Paperback, Hardcover, Audiobook; the first
  one that occurs in the title as a contiguous, case-sensitive substring (\<open>sublist\<close>) is the
  format, and the format is \<^verbatim>\<open>Standard\<close> when none occurs.
\<close>

definition spec_format :: "string \<Rightarrow> string" where
  "spec_format t =
     (case find (\<lambda>c. sublist c t) [''Paperback'', ''Hardcover'', ''Audiobook''] of
        None \<Rightarrow> ''Standard''
      | Some c \<Rightarrow> c)"

section \<open>The price, in the words of the specification\<close>



section \<open>Evaluating the built-ins\<close>

lemmas parse_defs = py_float_of_str_def py_int_of_str_def strip_ws_def is_space_def split_sign_def
  ascii_lower_def parse_number_def parse_mantissa_def parse_exponent_def is_digit_def
  nat_of_digits_def digit_val_def frac_of_digits_def pow10_def

lemmas sample_defs = sample_world_def response_with_def

lemma then_do_simps [simp]:
  "then_do (Inl e) f = Inl e" "then_do (Inr x) f = f x"
  by (simp_all add: then_do_def)

lemmas item_defs = clean_item_def rating_def reviews_def price_def fmt_def
  clean_str_def py_str_def py_split_def item0_def

lemma clean_code_item_row: "clean_item w clean_code_item = Inr clean_code_row"
  by (simp add: item_defs clean_code_item_def clean_code_row_def parse_defs)

lemma bad_rating_item_raises:
  "clean_item w bad_rating_item = Inl (ValueError (JStr ''N/A''))"
  by (simp add: item_defs bad_rating_item_def parse_defs)

lemma bad_reviews_item_raises:
  "clean_item w bad_reviews_item = Inl (ValueError (JStr ''1,234''))"
  by (simp add: item_defs bad_reviews_item_def parse_defs)

lemma fetch_data_sample:
  "fetch_data (sample_world (Some ''key'') (response_with items)) query sort_code =
     (if items = [] then ([], Some ''No products found.'')
      else (case clean_loop (sample_world (Some ''key'') (response_with items)) items [] of
              Inl e \<Rightarrow> ([], Some ''Server Error: <cause>'')
            | Inr rows \<Rightarrow> (rows, None)),
      [get_request ''key'' query sort_code])"
  by (simp add: fetch_data_def try_block_def sample_defs products_def split: sum.splits)

section \<open>The loop\<close>

lemma clean_loop_all:
  "list_all2 (\<lambda>item row. clean_item w item = Inr row) items rows \<Longrightarrow>
   clean_loop w items acc = Inr (acc @ rows)"
  by (induction items rows arbitrary: acc rule: list_all2_induct) simp_all

lemma clean_loop_raises:
  "item \<in> set items \<Longrightarrow> clean_item w item = Inl e0 \<Longrightarrow> \<exists>e. clean_loop w items acc = Inl e"
proof (induction items arbitrary: acc)
  case Nil
  then show ?case by simp
next
  case (Cons a items)
  show ?case
  proof (cases "clean_item w a")
    case (Inl e)
    then show ?thesis by simp
  next
    case (Inr row)
    with Cons have "item \<in> set items" by auto
    from Cons.IH [OF this Cons.prems(2)] Inr show ?thesis by simp
  qed
qed

section \<open>The loop body, field by field\<close>

lemma substring_sublist: "substring x s \<longleftrightarrow> sublist x s"
  by (induction s) (simp_all add: sublist_Cons_right)

lemma fmt_string: "fmt (JStr t) = Inr (spec_format t)"
  by (simp add: fmt_def spec_format_def substring_sublist)

lemma clean_item_fields:
  assumes "clean_item w (JObj kvs) = Inr row"
  shows "Title row = (case map_of kvs ''product_title'' of None \<Rightarrow> JStr ''Unknown'' | Some v \<Rightarrow> v)"
    and "Price row = JFloat (price w (case map_of kvs ''product_price'' of None \<Rightarrow> JNull | Some v \<Rightarrow> v))"
    and "rating (case map_of kvs ''product_star_rating'' of None \<Rightarrow> JNull | Some v \<Rightarrow> v) = Inr r
         \<Longrightarrow> Rating row = JFloat r"
    and "reviews (case map_of kvs ''product_num_ratings'' of None \<Rightarrow> JNull | Some v \<Rightarrow> v) = Inr n
         \<Longrightarrow> Reviews row = JInt n"
    and "fmt (case map_of kvs ''product_title'' of None \<Rightarrow> JStr ''Unknown'' | Some v \<Rightarrow> v) = Inr f
         \<Longrightarrow> Format row = JStr f"
  using assms by (auto simp: clean_item_def then_do_def split: sum.splits)

lemma null_title_raises:
  "map_of kvs ''product_title'' = Some JNull \<Longrightarrow> \<exists>e. clean_item w (JObj kvs) = Inl e"
  by (auto simp: clean_item_def then_do_def fmt_def split: sum.splits)

lemma map_of_filter_key:
  "map_of (filter (\<lambda>kv. fst kv \<noteq> k) kvs) k' = (if k' = k then None else map_of kvs k')"
  by (induction kvs) auto

lemma falsy_defaults:
  "\<not> py_bool v \<Longrightarrow> price w v = Finite 0"
  "\<not> py_bool v \<Longrightarrow> rating v = Inr (Finite 0)"
  "\<not> py_bool v \<Longrightarrow> reviews v = Inr 0"
  by (simp_all add: price_def rating_def reviews_def)

section \<open>The price\<close>





















section \<open>The claims\<close>

subsection \<open>C7: the missing credential\<close>

text \<open>
  C7. For every query and sort code, when no API key is configured (the variable is unset,
  or set to the empty string, which \<^verbatim>\<open>not api_key\<close> treats alike), \<open>fetch_data\<close> returns the
  empty record set with the error \<^verbatim>\<open>Missing API key in environment variables.\<close>, and the
  list of requests issued is empty: the check comes before the HTTP call.
\<close>

theorem C7_missing_api_key:
  "RAPIDAPI_KEY w = None \<or> RAPIDAPI_KEY w = Some [] \<Longrightarrow>
   fetch_data w query sort_code =
     (([], Some ''Missing API key in environment variables.''), [])"
  by (auto simp: fetch_data_def)

theorem C7_missing_api_key_witness:
  "fetch_data (sample_world None (response_with [clean_code_item]))
     ''programming books'' ''RELEVANCE'' =
     (([], Some ''Missing API key in environment variables.''), [])"
  using C7_missing_api_key [of "sample_world None (response_with [clean_code_item])"
      "''programming books''" "''RELEVANCE''"]
  by (simp add: sample_defs)

subsection \<open>C8: no products\<close>

text \<open>
  C8. With a key configured and a body decoded, whenever the array found at
  \<open>data.products\<close> is empty, \<open>fetch_data\<close> returns the empty record sequence with the error
  \<^verbatim>\<open>No products found.\<close>; this includes a body that is an object without the key \<open>data\<close>, and
  one whose \<open>data\<close> is an object without the key \<open>products\<close>, for which the defaults of the two
  \<^verbatim>\<open>get\<close> calls give the empty array.
\<close>

theorem C8_no_products:
  assumes "RAPIDAPI_KEY w = Some api_key" and "api_key \<noteq> []"
    and "http_json w (get_request api_key query sort_code) = Inr data"
    and "products data = Inr (JList [])
         \<or> (\<exists>kvs. data = JObj kvs \<and> map_of kvs ''data'' = None)
         \<or> (\<exists>kvs d. data = JObj kvs \<and> map_of kvs ''data'' = Some (JObj d)
                \<and> map_of d ''products'' = None)"
  shows "fetch_data w query sort_code =
           (([], Some ''No products found.''), [get_request api_key query sort_code])"
proof -
  from assms(4) have "products data = Inr (JList [])"
    by (auto simp: products_def)
  with assms(1-3) show ?thesis
    by (simp add: fetch_data_def try_block_def)
qed

theorem C8_no_products_witness:
  "fetch_data (sample_world (Some ''key'') (response_with [])) ''history books'' ''NEWEST'' =
     (([], Some ''No products found.''), [get_request ''key'' ''history books'' ''NEWEST''])
   \<and> fetch_data (sample_world (Some ''key'') (JObj [])) ''history books'' ''NEWEST'' =
     (([], Some ''No products found.''), [get_request ''key'' ''history books'' ''NEWEST''])"
  using C8_no_products [of "sample_world (Some ''key'') (response_with [])" "''key''"
      "''history books''" "''NEWEST''" "response_with []"]
    C8_no_products [of "sample_world (Some ''key'') (JObj [])" "''key''"
      "''history books''" "''NEWEST''" "JObj []"]
  by (simp add: sample_defs products_def)

subsection \<open>C2: the end-to-end example\<close>

text \<open>
  C2, as the code has it. For the item of the example, the loop body produces the record
  with Title \<^verbatim>\<open>Clean Code Paperback Edition\<close>, Price \<open>29.99\<close>, Rating \<open>4.7\<close>, Reviews \<open>1500\<close>,
  Format \<^verbatim>\<open>Paperback\<close>, Image the empty string and Link \<^verbatim>\<open>#\<close>, and \<open>fetch_data\<close> returns
  the one-row result without error; the key \<^verbatim>\<open>Best_Seller\<close> holds the string \<^verbatim>\<open>Yes\<close>
  (line 100 writes \<^verbatim>\<open>"Yes"\<close> or \<^verbatim>\<open>"No"\<close> by the truthiness of the raw flag, and line 149
  of the page compares the column with \<^verbatim>\<open>"Yes"\<close>).
\<close>

theorem C2_example_record:
  "clean_item w clean_code_item = Inr clean_code_row
   \<and> fetch_data (sample_world (Some ''key'') (response_with [clean_code_item])) query sort_code =
       (([clean_code_row], None), [get_request ''key'' query sort_code])
   \<and> Best_Seller clean_code_row = JStr ''Yes''"
  by (simp add: fetch_data_sample clean_code_item_row) (simp add: clean_code_row_def)

text \<open>
  C2 as stated fails: the record with the boolean \<open>true\<close> under BestSeller is not the one
  produced.
\<close>

theorem C2_best_seller_not_boolean:
  "clean_item (sample_world (Some ''key'') (response_with [clean_code_item])) clean_code_item \<noteq>
     Inr \<lparr> Title = JStr ''Clean Code Paperback Edition'',
           Rating = JFloat (binary64 (47 / 10)),
           Reviews = JInt 1500,
           Price = JFloat (binary64 (2999 / 100)),
           Format = JStr ''Paperback'',
           Best_Seller = JBool True,
           Image = JStr [],
           Link = JStr ''#'' \<rparr>"
  by (simp add: clean_code_item_row clean_code_row_def)

subsection \<open>C1: a rating or review count that does not parse\<close>

text \<open>
  C1 at its failing inputs. A product array whose second item has the rating \<^verbatim>\<open>N/A\<close>, or
  the review count \<^verbatim>\<open>1,234\<close>: \<^verbatim>\<open>float\<close> or \<^verbatim>\<open>int\<close> raises \<^verbatim>\<open>ValueError\<close> at line 80 or 83,
  outside the inner \<^verbatim>\<open>try\<close> that guards the price only, and the outer handler returns no
  record at all, with a \<^verbatim>\<open>Server Error\<close> message; the well-formed first item is lost too.
\<close>

theorem C1_parse_failure_aborts_batch:
  "fetch_data (sample_world (Some ''key'') (response_with [clean_code_item, bad_rating_item]))
     ''history books'' ''NEWEST'' =
     (([], Some ''Server Error: <cause>''), [get_request ''key'' ''history books'' ''NEWEST''])
   \<and> fetch_data (sample_world (Some ''key'') (response_with [clean_code_item, bad_reviews_item]))
     ''history books'' ''NEWEST'' =
     (([], Some ''Server Error: <cause>''), [get_request ''key'' ''history books'' ''NEWEST''])"
  by (simp add: fetch_data_sample clean_code_item_row bad_rating_item_raises bad_reviews_item_raises)

subsection \<open>C3: one record per item\<close>

text \<open>
  C3 at its failing input. The array of the two items of C1: the first item alone gives a
  result of one record, and the array of length 2 gives a result of length 0, because the
  rating \<^verbatim>\<open>N/A\<close> of the second item raises at line 80 and the outer handler returns no
  record. Both items are dropped because of a field-level error.
\<close>

theorem C3_rows_lost:
  "fst (fetch_data (sample_world (Some ''key'') (response_with [clean_code_item]))
      ''history books'' ''NEWEST'') = ([clean_code_row], None)
   \<and> fst (fetch_data (sample_world (Some ''key'') (response_with [clean_code_item, bad_rating_item]))
      ''history books'' ''NEWEST'') = ([], Some ''Server Error: <cause>'')
   \<and> length [clean_code_item, bad_rating_item] = 2"
  by (simp add: fetch_data_sample clean_code_item_row bad_rating_item_raises)

subsection \<open>C9: a null title\<close>

text \<open>
  C9. With a key configured and a body decoded, for every product array containing an item
  whose key \<^verbatim>\<open>product_title\<close> is present and bound to null, the test \<^verbatim>\<open>"Paperback" in title\<close>
  (or an earlier statement) raises, no record is returned for any item, and the error is
  \<^verbatim>\<open>Server Error: \<close> followed by the text of the exception. The default \<^verbatim>\<open>Unknown\<close> is used
  only when the key is absent: the Title of a record is the value bound to the key whenever
  there is one.
\<close>

theorem C9_null_title_aborts:
  assumes "RAPIDAPI_KEY w = Some api_key" and "api_key \<noteq> []"
    and "http_json w (get_request api_key query sort_code) = Inr data"
    and "products data = Inr (JList items)"
    and "JObj kvs \<in> set items" and "map_of kvs ''product_title'' = Some JNull"
  shows "(\<exists>e. fetch_data w query sort_code =
              (([], Some (''Server Error: '' @ exc_str w e)), [get_request api_key query sort_code]))
         \<and> (\<forall>kvs' row. clean_item w (JObj kvs') = Inr row \<longrightarrow>
               Title row = (case map_of kvs' ''product_title'' of
                              None \<Rightarrow> JStr ''Unknown'' | Some v \<Rightarrow> v))"
proof -
  from null_title_raises [OF assms(6)] obtain e0 where "clean_item w (JObj kvs) = Inl e0" ..
  from clean_loop_raises [OF assms(5) this] obtain e where "clean_loop w items [] = Inl e" ..
  moreover from assms(5) have "items \<noteq> []" by auto
  ultimately have "fetch_data w query sort_code =
      (([], Some (''Server Error: '' @ exc_str w e)), [get_request api_key query sort_code])"
    using assms(1-4) by (simp add: fetch_data_def try_block_def)
  then show ?thesis by (auto simp: clean_item_fields(1))
qed

theorem C9_null_title_aborts_witness:
  "(\<exists>e. fetch_data (sample_world (Some ''key'') (response_with [clean_code_item, null_title_item]))
           ''history books'' ''NEWEST'' =
           (([], Some (''Server Error: '' @
               exc_str (sample_world (Some ''key'') (response_with [clean_code_item, null_title_item])) e)),
            [get_request ''key'' ''history books'' ''NEWEST'']))
   \<and> (\<exists>row. clean_item (sample_world (Some ''key'') (response_with [])) (JObj []) = Inr row
          \<and> Title row = JStr ''Unknown'')"
proof -
  let ?w = "sample_world (Some ''key'') (response_with [clean_code_item, null_title_item])"
  have a: "\<exists>e. fetch_data ?w ''history books'' ''NEWEST'' =
           (([], Some (''Server Error: '' @ exc_str ?w e)),
            [get_request ''key'' ''history books'' ''NEWEST''])"
    using C9_null_title_aborts [of ?w "''key''" "''history books''" "''NEWEST''"
        "response_with [clean_code_item, null_title_item]" "[clean_code_item, null_title_item]"
        "[(''product_title'', JNull), (''product_price'', JStr ''$5'')]"]
    by (simp add: sample_defs products_def null_title_item_def)
  have b: "\<exists>row. clean_item (sample_world (Some ''key'') (response_with [])) (JObj []) = Inr row
          \<and> Title row = JStr ''Unknown''"
    by (simp add: item_defs)
  from a b show ?thesis by blast
qed

subsection \<open>C10: falsy values\<close>

text \<open>
  C10. For every item in which the price, rating or review-count key is bound to a falsy
  value (such as \<open>0\<close>, the empty string, null or false), the loop body gives exactly what
  it gives for the item without that key, and the field takes its default \<open>0.0\<close>, \<open>0.0\<close>
  or \<open>0\<close>, with no call of \<^verbatim>\<open>float\<close> or \<^verbatim>\<open>int\<close>.
\<close>

theorem C10_falsy_as_absent:
  assumes "k \<in> {''product_price'', ''product_star_rating'', ''product_num_ratings''}"
    and "map_of kvs k = Some v" and "\<not> py_bool v"
  shows "clean_item w (JObj kvs) = clean_item w (JObj (filter (\<lambda>kv. fst kv \<noteq> k) kvs))
         \<and> price w v = Finite 0 \<and> rating v = Inr (Finite 0) \<and> reviews v = Inr 0"
proof -
  from assms(1) consider "k = ''product_price''" | "k = ''product_star_rating''"
    | "k = ''product_num_ratings''" by auto
  then have "clean_item w (JObj kvs) = clean_item w (JObj (filter (\<lambda>kv. fst kv \<noteq> k) kvs))"
  proof cases
    case 1
    with assms(2,3) show ?thesis
      by (simp add: clean_item_def map_of_filter_key falsy_defaults)
  next
    case 2
    with assms(2,3) show ?thesis
      by (simp add: clean_item_def map_of_filter_key falsy_defaults)
  next
    case 3
    with assms(2,3) show ?thesis
      by (simp add: clean_item_def map_of_filter_key falsy_defaults)
  qed
  with assms(3) show ?thesis by (simp add: falsy_defaults)
qed

theorem C10_falsy_as_absent_witness:
  "\<not> py_bool (JStr []) \<and> \<not> py_bool (JInt 0) \<and> \<not> py_bool (JBool False) \<and> \<not> py_bool JNull
   \<and> clean_item (sample_world (Some ''key'') (response_with [])) falsy_fields_item =
       clean_item (sample_world (Some ''key'') (response_with [])) title_only_item
   \<and> price (sample_world (Some ''key'') (response_with [])) (JStr []) = Finite 0
   \<and> rating (JInt 0) = Inr (Finite 0)
   \<and> reviews (JBool False) = Inr 0 \<and> reviews JNull = Inr 0"
proof -
  let ?w = "sample_world (Some ''key'') (response_with [])"
  let ?a = "[(''product_title'', JStr ''Dune''), (''product_price'', JStr []),
             (''product_star_rating'', JInt 0), (''product_num_ratings'', JBool False)]"
  let ?b = "[(''product_title'', JStr ''Dune''),
             (''product_star_rating'', JInt 0), (''product_num_ratings'', JBool False)]"
  let ?c = "[(''product_title'', JStr ''Dune''), (''product_num_ratings'', JBool False)]"
  let ?d = "[(''product_title'', JStr ''Dune''), (''product_num_ratings'', JNull)]"
  from C10_falsy_as_absent [of "''product_price''" ?a "JStr []" ?w]
  have 1: "clean_item ?w (JObj ?a) = clean_item ?w (JObj ?b)" "price ?w (JStr []) = Finite 0"
    by simp_all
  from C10_falsy_as_absent [of "''product_star_rating''" ?b "JInt 0" ?w]
  have 2: "clean_item ?w (JObj ?b) = clean_item ?w (JObj ?c)" "rating (JInt 0) = Inr (Finite 0)"
    by simp_all
  from C10_falsy_as_absent [of "''product_num_ratings''" ?c "JBool False" ?w]
  have 3: "clean_item ?w (JObj ?c) = clean_item ?w title_only_item" "reviews (JBool False) = Inr 0"
    by (simp_all add: title_only_item_def)
  from C10_falsy_as_absent [of "''product_num_ratings''" ?d JNull ?w]
  have 4: "reviews JNull = Inr 0"
    by simp
  from 1 2 3 4 show ?thesis by (simp add: falsy_fields_item_def)
qed

subsection \<open>C6: the format\<close>

text \<open>
  C6. For every title string the format computed by the code is the one the specification
  describes (\<open>spec_format\<close>: first candidate, in the order Paperback, Hardcover, Audiobook,
  that is a case-sensitive substring of the title, and \<^verbatim>\<open>Standard\<close> when there is none); a
  title that contains both \<^verbatim>\<open>Paperback\<close> and \<^verbatim>\<open>Hardcover\<close> gets \<^verbatim>\<open>Paperback\<close>; and the
  Format of the record of an item with that title is this format.
\<close>

theorem C6_format_inference:
  "fmt (JStr t) = Inr (spec_format t)
   \<and> (sublist ''Paperback'' t \<and> sublist ''Hardcover'' t \<longrightarrow> fmt (JStr t) = Inr ''Paperback'')
   \<and> (\<forall>kvs row. map_of kvs ''product_title'' = Some (JStr t) \<and> clean_item w (JObj kvs) = Inr row
         \<longrightarrow> Format row = JStr (spec_format t))"
proof -
  have "Format row = JStr (spec_format t)"
    if "map_of kvs ''product_title'' = Some (JStr t)" "clean_item w (JObj kvs) = Inr row"
    for kvs row
    using clean_item_fields(5) [OF that(2), of "spec_format t"] that(1) by (simp add: fmt_string)
  then show ?thesis by (auto simp: fmt_string spec_format_def)
qed

theorem C6_format_inference_witness:
  "sublist ''Paperback'' ''Dune: Hardcover and Paperback Box''
   \<and> sublist ''Hardcover'' ''Dune: Hardcover and Paperback Box''
   \<and> fmt (JStr ''Dune: Hardcover and Paperback Box'') = Inr ''Paperback''
   \<and> (\<exists>row. clean_item (sample_world (Some ''key'') (response_with [])) both_formats_item = Inr row
          \<and> Format row = JStr ''Paperback'')"
proof -
  let ?t = "''Dune: Hardcover and Paperback Box''"
  let ?w = "sample_world (Some ''key'') (response_with [])"
  have p: "sublist ''Paperback'' ?t" and h: "sublist ''Hardcover'' ?t"
    by (simp_all add: substring_sublist [symmetric])
  obtain row where row: "clean_item ?w both_formats_item = Inr row"
    by (simp add: item_defs both_formats_item_def)
  from C6_format_inference [of ?t ?w]
  have f: "fmt (JStr ?t) = Inr (spec_format ?t)"
    and both: "sublist ''Paperback'' ?t \<and> sublist ''Hardcover'' ?t \<longrightarrow> fmt (JStr ?t) = Inr ''Paperback''"
    and rec: "\<forall>kvs row. map_of kvs ''product_title'' = Some (JStr ?t) \<and> clean_item ?w (JObj kvs) = Inr row
                \<longrightarrow> Format row = JStr (spec_format ?t)"
    by blast+
  from both p h have pb: "fmt (JStr ?t) = Inr ''Paperback''" by blast
  with f have "spec_format ?t = ''Paperback''" by simp
  moreover from rec [rule_format, of "[(''product_title'', JStr ?t)]" row] row
  have "Format row = JStr (spec_format ?t)"
    by (simp add: both_formats_item_def)
  ultimately have "Format row = JStr ''Paperback''" by simp
  with p h pb row show ?thesis by blast
qed

subsection \<open>C5: absent fields\<close>

text \<open>
  C5 at its failing input. An item without the price key and without the review-count key,
  whose rating is \<^verbatim>\<open>N/A\<close>: the price and the review count of the absent keys would be the
  defaults \<open>0.0\<close> and \<open>0\<close>, but \<^verbatim>\<open>float\<close> raises \<^verbatim>\<open>ValueError\<close> for the rating at line 80,
  outside the inner \<^verbatim>\<open>try\<close>, so an error is raised for the item and the function returns no
  record, with a \<^verbatim>\<open>Server Error\<close> message.
\<close>

theorem C5_absent_price_item_raises:
  "map_of no_price_fields ''product_price'' = None
   \<and> map_of no_price_fields ''product_num_ratings'' = None
   \<and> price w JNull = Finite 0 \<and> reviews JNull = Inr 0
   \<and> clean_item w no_price_item = Inl (ValueError (JStr ''N/A''))
   \<and> fetch_data (sample_world (Some ''key'') (response_with [no_price_item]))
        ''history books'' ''NEWEST'' =
       (([], Some ''Server Error: <cause>''), [get_request ''key'' ''history books'' ''NEWEST''])"
proof -
  have raises: "clean_item w no_price_item = Inl (ValueError (JStr ''N/A''))" for w
    by (simp add: item_defs no_price_item_def no_price_fields_def parse_defs)
  then show ?thesis
    by (simp add: fetch_data_sample falsy_defaults) (simp add: no_price_fields_def)
qed

subsection \<open>C4: the price\<close>



end
